theory Spec2Isabelle
  imports Main "HOL-Library.Word"
begin

section \<open>Data model of package postgres\<close>

text \<open>
  The package sits on top of three libraries whose code is not part of it:
  google/uuid (token generation), jinzhu/gorm (the database handle) and the logger.
  Values that come out of those libraries are inputs of the model; everything the
  package itself decides is a definition below.

  A Go \<^verbatim>\<open>error\<close> is an interface value. The two sentinel errors of
  \<^verbatim>\<open>transaction_context.go\<close> are constructors of their own; any other error
  (reported by the database driver or by the random source) is a \<open>LibraryError\<close>
  carrying its message.
\<close>

datatype error = ErrTxWasRollbacked | ErrNotInTransaction | LibraryError string

text \<open>\<^verbatim>\<open>uuid.UUID\<close> is \<^verbatim>\<open>[16]byte\<close>: 128 bits, compared with \<^verbatim>\<open>!=\<close> bytewise.
  The zero value of the array is \<^verbatim>\<open>uuid.Nil\<close>.\<close>

type_synonym UUID = "128 word"

definition Nil_UUID :: UUID where
  "Nil_UUID = 0"

text \<open>
  \<^verbatim>\<open>*gorm.DB\<close> points to a handle. The package reads one field of it, \<^verbatim>\<open>Error\<close>,
  and otherwise passes the pointer around; \<open>handle\<close> stands for the identity of the
  pointed-to object. A nullable pointer is an \<open>option\<close>.
\<close>

record gorm_DB =
  handle :: nat
  Error :: "error option"

record DatabaseHolder =
  dbConnection :: "gorm_DB option"

text \<open>The struct \<^verbatim>\<open>transactionContext\<close>. The logger field is left out: logging
  neither reads nor writes the other fields and has no influence on any result.\<close>

record transactionContext =
  dbHolder :: "DatabaseHolder option"
  tx :: "gorm_DB option"
  transactionUUID :: "UUID option"
  rollbacked :: bool

text \<open>
  What the libraries answer during one call of an operation. Each operation calls
  \<^verbatim>\<open>uuid.NewRandom()\<close> at most once and each gorm method at most once, so one
  record per call is enough. \<^verbatim>\<open>uuid.NewRandom\<close> returns \<^verbatim>\<open>(UUID, error)\<close>; gorm's
  \<^verbatim>\<open>Begin\<close>, \<^verbatim>\<open>Commit\<close> and \<^verbatim>\<open>Rollback\<close> each return a non-nil \<^verbatim>\<open>*gorm.DB\<close> and report
  failure in its \<^verbatim>\<open>Error\<close> field.
\<close>

record library =
  uuid_NewRandom :: "UUID \<times> error option"
  gorm_Begin :: "gorm_DB \<Rightarrow> gorm_DB"
  gorm_Commit :: "gorm_DB \<Rightarrow> gorm_DB"
  gorm_Rollback :: "gorm_DB \<Rightarrow> gorm_DB"

text \<open>The calls an operation issues against the database, in order.\<close>

datatype db_call = DbBegin gorm_DB | DbCommit gorm_DB | DbRollback gorm_DB

text \<open>A call either returns or panics (a nil pointer is dereferenced); \<open>Fatal\<close> is
  the process being terminated by the logger's \<^verbatim>\<open>Fatalf\<close>.\<close>

datatype 'a outcome = Return 'a | Panic | Fatal

section \<open>The transaction context\<close>

definition newTransactionContext :: "DatabaseHolder option \<Rightarrow> transactionContext" where
  "newTransactionContext holder =
     \<lparr>dbHolder = holder, tx = None, transactionUUID = None, rollbacked = False\<rparr>"

definition inTransaction :: "transactionContext \<Rightarrow> bool" where
  "inTransaction c \<longleftrightarrow> tx c \<noteq> None \<and> transactionUUID c \<noteq> None"

definition wasRollbacked :: "transactionContext \<Rightarrow> bool" where
  "wasRollbacked c \<longleftrightarrow> rollbacked c"

definition dispose :: "transactionContext \<Rightarrow> transactionContext" where
  "dispose c = c\<lparr>tx := None, transactionUUID := None\<rparr>"

definition disposeAfterRollback :: "transactionContext \<Rightarrow> transactionContext" where
  "disposeAfterRollback c = dispose (c\<lparr>rollbacked := True\<rparr>)"

definition providerWithoutTransaction :: "transactionContext \<Rightarrow> gorm_DB option outcome" where
  "providerWithoutTransaction c =
     (case dbHolder c of
        None \<Rightarrow> Panic
      | Some holder \<Rightarrow> Return (dbConnection holder))"

text \<open>
  \<^verbatim>\<open>Begin\<close> has the named results \<^verbatim>\<open>(id, err)\<close>; every \<^verbatim>\<open>return\<close> hands back their
  current values (the result \<^verbatim>\<open>id\<close> is \<open>uid\<close> here, as \<open>id\<close> is HOL's identity
  function). The token is stored before the transaction is opened, so a panic in
  \<^verbatim>\<open>c.dbHolder.dbConnection.Begin()\<close> (holder or connection nil) leaves it stored.
\<close>

definition Begin ::
  "library \<Rightarrow> transactionContext \<Rightarrow>
     (UUID \<times> error option) outcome \<times> transactionContext \<times> db_call list" where
  "Begin lib c =
     (if wasRollbacked c then (Return (Nil_UUID, Some ErrTxWasRollbacked), c, [])
      else
        (case uuid_NewRandom lib of
           (uid, err) \<Rightarrow>
             if err \<noteq> None then (Return (uid, err), c, [])
             else if \<not> inTransaction c then
               (let c1 = c\<lparr>transactionUUID := Some uid\<rparr> in
                  case dbHolder c1 of
                    None \<Rightarrow> (Panic, c1, [])
                  | Some holder \<Rightarrow>
                      (case dbConnection holder of
                         None \<Rightarrow> (Panic, c1, [])
                       | Some conn \<Rightarrow>
                           (let t = gorm_Begin lib conn;
                                c2 = c1\<lparr>tx := Some t\<rparr>
                            in (Return (uid, Error t), c2, [DbBegin conn]))))
             else (Return (uid, None), c, [])))"

definition Provider :: "transactionContext \<Rightarrow> gorm_DB option outcome" where
  "Provider c =
     (if wasRollbacked c then Return None
      else if inTransaction c then Return (tx c)
      else providerWithoutTransaction c)"

text \<open>\<^verbatim>\<open>defer c.dispose()\<close> runs when \<^verbatim>\<open>Commit\<close> leaves, whatever the commit reported.\<close>

definition Commit ::
  "library \<Rightarrow> transactionContext \<Rightarrow> UUID \<Rightarrow>
     error option outcome \<times> transactionContext \<times> db_call list" where
  "Commit lib c uid =
     (if wasRollbacked c then (Return (Some ErrTxWasRollbacked), c, [])
      else if \<not> inTransaction c then (Return (Some ErrNotInTransaction), c, [])
      else
        (case transactionUUID c of
           None \<Rightarrow> (Panic, c, [])
         | Some owner \<Rightarrow>
             if owner \<noteq> uid then (Return None, c, [])
             else
               (case tx c of
                  None \<Rightarrow> (Panic, dispose c, [])
                | Some t \<Rightarrow> (Return (Error (gorm_Commit lib t)), dispose c, [DbCommit t]))))"

definition Rollback ::
  "library \<Rightarrow> transactionContext \<Rightarrow>
     error option outcome \<times> transactionContext \<times> db_call list" where
  "Rollback lib c =
     (if wasRollbacked c then (Return (Some ErrTxWasRollbacked), c, [])
      else if \<not> inTransaction c then (Return None, c, [])
      else
        (case tx c of
           None \<Rightarrow> (Panic, disposeAfterRollback c, [])
         | Some t \<Rightarrow>
             (Return (Error (gorm_Rollback lib t)), disposeAfterRollback c, [DbRollback t])))"

text \<open>The three states of the specification, read off the fields.\<close>

definition Idle :: "transactionContext \<Rightarrow> bool" where
  "Idle c \<longleftrightarrow> tx c = None \<and> transactionUUID c = None \<and> \<not> rollbacked c"

definition Active :: "transactionContext \<Rightarrow> bool" where
  "Active c \<longleftrightarrow> tx c \<noteq> None \<and> transactionUUID c \<noteq> None \<and> \<not> rollbacked c"

definition RolledBack :: "transactionContext \<Rightarrow> bool" where
  "RolledBack c \<longleftrightarrow> rollbacked c"

text \<open>Invariant A of the specification: handle and token are both nil or both set.\<close>

definition invariant_A :: "transactionContext \<Rightarrow> bool" where
  "invariant_A c \<longleftrightarrow> (tx c = None \<longleftrightarrow> transactionUUID c = None)"

text \<open>A context built over a holder that carries a live connection, which is what
  \<^verbatim>\<open>getTransactionContextWithDBHolder\<close> passes to \<^verbatim>\<open>newTransactionContext\<close> whenever
  \<^verbatim>\<open>NewDBHolderInstance\<close> has returned a holder.\<close>

definition connected :: "transactionContext \<Rightarrow> bool" where
  "connected c \<longleftrightarrow>
     (case dbHolder c of None \<Rightarrow> False | Some holder \<Rightarrow> dbConnection holder \<noteq> None)"

subsection \<open>Sequences of calls on one context\<close>

text \<open>
  The interface \<^verbatim>\<open>ITransactionContext\<close> has four methods. A caller holding a context
  issues them in any order; each call comes with what the libraries answer during it.
  \<open>after_call\<close> is the context a call leaves behind, \<open>call_returns\<close> says that the
  call came back to its caller instead of panicking, \<open>run\<close> and \<open>all_return\<close> lift
  both to a sequence of calls.
\<close>

datatype call = CallBegin | CallProvider | CallCommit UUID | CallRollback

fun returned :: "'a outcome \<Rightarrow> bool" where
  "returned (Return _) = True"
| "returned Panic = False"
| "returned Fatal = False"

fun after_call :: "library \<Rightarrow> call \<Rightarrow> transactionContext \<Rightarrow> transactionContext" where
  "after_call lib CallBegin c = fst (snd (Begin lib c))"
| "after_call lib CallProvider c = c"
| "after_call lib (CallCommit uid) c = fst (snd (Commit lib c uid))"
| "after_call lib CallRollback c = fst (snd (Rollback lib c))"

fun call_returns :: "library \<Rightarrow> call \<Rightarrow> transactionContext \<Rightarrow> bool" where
  "call_returns lib CallBegin c = returned (fst (Begin lib c))"
| "call_returns lib CallProvider c = returned (Provider c)"
| "call_returns lib (CallCommit uid) c = returned (fst (Commit lib c uid))"
| "call_returns lib CallRollback c = returned (fst (Rollback lib c))"

fun run :: "(library \<times> call) list \<Rightarrow> transactionContext \<Rightarrow> transactionContext" where
  "run [] c = c"
| "run ((lib, k) # ks) c = run ks (after_call lib k c)"

fun all_return :: "(library \<times> call) list \<Rightarrow> transactionContext \<Rightarrow> bool" where
  "all_return [] c = True"
| "all_return ((lib, k) # ks) c \<longleftrightarrow>
     call_returns lib k c \<and> all_return ks (after_call lib k c)"

section \<open>Connecting, and the holder singleton\<close>

record PgConfig =
  Host :: string
  DBName :: string
  Schema :: string
  User :: string
  Password :: string
  MaxOpenConnections :: int
  ConnectionMaxLifetimeMS :: int
  LogMode :: bool
  SSLMode :: string

definition defaultConnectionNumberOfRetries :: nat where
  "defaultConnectionNumberOfRetries = 8"

definition defaultConnectionSecondsBetweenRetries :: nat where
  "defaultConnectionSecondsBetweenRetries = 4"

text \<open>
  \<^verbatim>\<open>gorm.Open("postgres", dsn)\<close> returns \<^verbatim>\<open>(db, err)\<close>. The connection string is
  built from five fields of the configuration (\<open>dsn_fields\<close>); what the database
  answers may differ from one attempt to the next, so the answer is a function of the
  attempt number as well.
\<close>

type_synonym dsn = "string \<times> string \<times> string \<times> string \<times> string"

definition dsn_fields :: "PgConfig \<Rightarrow> dsn" where
  "dsn_fields cfg = (Host cfg, User cfg, Password cfg, DBName cfg, Schema cfg)"

type_synonym dial_result = "gorm_DB option \<times> error option"

type_synonym dialer = "nat \<Rightarrow> dsn \<Rightarrow> dial_result"

text \<open>
  The loop of \<^verbatim>\<open>Open\<close>, from attempt \<open>retry\<close> on. A failed attempt sleeps and
  continues; a successful one configures the handle and returns it (\<^verbatim>\<open>db.SetLogger\<close>
  on a nil handle would panic). Once the attempts are used up the logger's \<^verbatim>\<open>Fatalf\<close>
  ends the process, as section 4.1 of the specification has it. Next to the result
  stands the list of answers \<^verbatim>\<open>gorm.Open\<close> gave, one per attempt made. The pool and
  logging settings applied to a fresh handle are not tracked.
\<close>

function Open_loop ::
  "dialer \<Rightarrow> PgConfig \<Rightarrow> nat \<Rightarrow> dial_result outcome \<times> dial_result list" where
  "Open_loop dial cfg retry =
     (if retry < defaultConnectionNumberOfRetries then
        (case dial retry (dsn_fields cfg) of
           (db, err) \<Rightarrow>
             if err \<noteq> None then
               (case Open_loop dial cfg (retry + 1) of
                  (r, answers) \<Rightarrow> (r, (db, err) # answers))
             else if db = None then (Panic, [(db, err)])
             else (Return (db, err), [(db, err)]))
      else (Fatal, []))"
  by pat_completeness auto
termination
  by (relation "measure (\<lambda>(dial, cfg, retry). defaultConnectionNumberOfRetries - retry)")
     auto

text \<open>\<^verbatim>\<open>Open\<close> reads \<^verbatim>\<open>cfg.DBName\<close> for its first log line, before any attempt: a
  nil configuration panics there.\<close>

definition Open :: "dialer \<Rightarrow> PgConfig option \<Rightarrow> dial_result outcome \<times> dial_result list" where
  "Open dial cfg =
     (case cfg of
        None \<Rightarrow> (Panic, [])
      | Some cfg' \<Rightarrow> Open_loop dial cfg' 0)"

definition NewConnect ::
  "dialer \<Rightarrow> PgConfig option \<Rightarrow> gorm_DB option outcome \<times> dial_result list" where
  "NewConnect dial config =
     (case Open dial config of
        (Return (db, err), answers) \<Rightarrow>
          if err \<noteq> None then (Panic, answers) else (Return db, answers)
      | (Panic, answers) \<Rightarrow> (Panic, answers)
      | (Fatal, answers) \<Rightarrow> (Fatal, answers))"

definition NewDBHolder :: "gorm_DB option \<Rightarrow> DatabaseHolder" where
  "NewDBHolder db = \<lparr>dbConnection = db\<rparr>"

text \<open>
  The package variables \<^verbatim>\<open>dbHolder\<close> and \<^verbatim>\<open>onceDBHolder\<close>. Of the \<^verbatim>\<open>sync.Once\<close> only
  its done flag matters to a single thread of calls. \<^verbatim>\<open>Once.Do\<close> sets the flag in a
  deferred statement, so it is set also when the function it runs panics; a process
  that \<^verbatim>\<open>Fatalf\<close> terminated runs no deferred statement.
\<close>

record package_vars =
  dbHolder_var :: "DatabaseHolder option"
  onceDBHolder :: bool

definition initial_vars :: package_vars where
  "initial_vars = \<lparr>dbHolder_var = None, onceDBHolder = False\<rparr>"

definition NewDBHolderInstance ::
  "dialer \<Rightarrow> PgConfig option \<Rightarrow> package_vars \<Rightarrow>
     DatabaseHolder option outcome \<times> package_vars \<times> dial_result list" where
  "NewDBHolderInstance dial config g =
     (if onceDBHolder g then (Return (dbHolder_var g), g, [])
      else
        (case NewConnect dial config of
           (Return connect, answers) \<Rightarrow>
             (let g' = g\<lparr>dbHolder_var := Some (NewDBHolder connect), onceDBHolder := True\<rparr>
              in (Return (dbHolder_var g'), g', answers))
         | (Panic, answers) \<Rightarrow> (Panic, g\<lparr>onceDBHolder := True\<rparr>, answers)
         | (Fatal, answers) \<Rightarrow> (Fatal, g, answers)))"

text \<open>The connections a list of \<^verbatim>\<open>gorm.Open\<close> answers opened: those without error.\<close>

fun opened :: "dial_result list \<Rightarrow> gorm_DB list" where
  "opened [] = []"
| "opened ((Some db, None) # answers) = db # opened answers"
| "opened (_ # answers) = opened answers"

text \<open>A sequence of further calls of \<^verbatim>\<open>NewDBHolderInstance\<close>, each with its own
  configuration and its own database answers: what each returned, the variables at
  the end, and every answer \<^verbatim>\<open>gorm.Open\<close> gave on the way.\<close>

fun instances ::
  "(dialer \<times> PgConfig option) list \<Rightarrow> package_vars \<Rightarrow>
     DatabaseHolder option outcome list \<times> package_vars \<times> dial_result list" where
  "instances [] g = ([], g, [])"
| "instances ((dial, config) # rest) g =
     (case NewDBHolderInstance dial config g of
        (r, g', answers) \<Rightarrow>
          (case instances rest g' of
             (rs, g'', answers') \<Rightarrow> (r # rs, g'', answers @ answers')))"


section \<open>Properties of the transaction context\<close>

lemmas state_defs = Idle_def Active_def RolledBack_def inTransaction_def wasRollbacked_def

subsection \<open>Begin\<close>

text \<open>
  The claim C1 as the specification words it, refuted: on an Active context whose
  stored owning token is 5, with \<^verbatim>\<open>uuid.NewRandom()\<close> producing 6, \<open>Begin\<close> returns 6.
\<close>

theorem Begin_Active_returns_stored_token_counterexample:
  "Active \<lparr>dbHolder = None, tx = Some \<lparr>handle = 1, Error = None\<rparr>,
           transactionUUID = Some 5, rollbacked = False\<rparr>
   \<and> transactionUUID \<lparr>dbHolder = None, tx = Some \<lparr>handle = 1, Error = None\<rparr>,
           transactionUUID = Some 5, rollbacked = False\<rparr> = Some 5
   \<and> fst (Begin \<lparr>uuid_NewRandom = (6, None), gorm_Begin = (\<lambda>h. h),
                  gorm_Commit = (\<lambda>h. h), gorm_Rollback = (\<lambda>h. h)\<rparr>
             \<lparr>dbHolder = None, tx = Some \<lparr>handle = 1, Error = None\<rparr>,
              transactionUUID = Some 5, rollbacked = False\<rparr>)
     = Return (6, None)
   \<and> (6::UUID) \<noteq> 5"
  by (simp add: Begin_def state_defs)

text \<open>
  C1, amended. On an Active context \<open>Begin\<close> returns exactly what \<^verbatim>\<open>uuid.NewRandom()\<close>
  returned during the call: the newly generated token with a nil error, or the
  generator's error. It issues no call against the database and leaves the context,
  so the stored handle and the stored owning token, as they were.
\<close>

theorem Begin_Active_returns_fresh_token:
  assumes "Active c"
  shows "Begin lib c = (Return (uuid_NewRandom lib), c, [])"
  using assms by (cases "uuid_NewRandom lib") (auto simp: Begin_def state_defs)

theorem Begin_Active_returns_fresh_token_witness:
  "Active \<lparr>dbHolder = None, tx = Some \<lparr>handle = 1, Error = None\<rparr>,
           transactionUUID = Some 5, rollbacked = False\<rparr>
   \<and> Begin \<lparr>uuid_NewRandom = (6, None), gorm_Begin = (\<lambda>h. h),
            gorm_Commit = (\<lambda>h. h), gorm_Rollback = (\<lambda>h. h)\<rparr>
        \<lparr>dbHolder = None, tx = Some \<lparr>handle = 1, Error = None\<rparr>,
         transactionUUID = Some 5, rollbacked = False\<rparr>
     = (Return (6, None),
        \<lparr>dbHolder = None, tx = Some \<lparr>handle = 1, Error = None\<rparr>,
         transactionUUID = Some 5, rollbacked = False\<rparr>, [])"
proof -
  let ?c = "\<lparr>dbHolder = None, tx = Some \<lparr>handle = 1, Error = None\<rparr>,
             transactionUUID = Some (5::UUID), rollbacked = False\<rparr>"
  have a: "Active ?c" by (simp add: Active_def)
  show ?thesis using a Begin_Active_returns_fresh_token [OF a] by simp
qed

subsection \<open>Rollback is terminal\<close>

lemma rollbacked_after_call: "rollbacked c \<Longrightarrow> after_call lib k c = c"
  by (cases k) (simp_all add: Begin_def Commit_def Rollback_def wasRollbacked_def)

lemma rollbacked_run: "rollbacked c \<Longrightarrow> run ks c = c"
  by (induction ks arbitrary: c) (auto simp: rollbacked_after_call)

text \<open>
  C2. \<open>Rollback\<close> on an Active context issues the database rollback and, whatever that
  reports, leaves the context with the rolled-back flag set. After any further
  sequence \<open>ks\<close> of calls (each with arbitrary library answers) the flag is still set,
  and \<open>Begin\<close>, \<open>Commit\<close> (with any token) and \<open>Rollback\<close> each fail with
  \<open>ErrTxWasRollbacked\<close>.
\<close>

theorem Rollback_is_terminal:
  assumes "Active c" and "tx c = Some t"
  shows "Rollback lib c =
           (Return (Error (gorm_Rollback lib t)), disposeAfterRollback c, [DbRollback t])
         \<and> rollbacked (disposeAfterRollback c)
         \<and> rollbacked (run ks (disposeAfterRollback c))
         \<and> fst (Begin lib' (run ks (disposeAfterRollback c)))
             = Return (Nil_UUID, Some ErrTxWasRollbacked)
         \<and> fst (Commit lib' (run ks (disposeAfterRollback c)) uid)
             = Return (Some ErrTxWasRollbacked)
         \<and> fst (Rollback lib' (run ks (disposeAfterRollback c)))
             = Return (Some ErrTxWasRollbacked)"
proof -
  have r: "rollbacked (disposeAfterRollback c)"
    by (simp add: disposeAfterRollback_def dispose_def)
  have stay: "run ks (disposeAfterRollback c) = disposeAfterRollback c"
    using r by (rule rollbacked_run)
  have first: "Rollback lib c =
           (Return (Error (gorm_Rollback lib t)), disposeAfterRollback c, [DbRollback t])"
    using assms by (simp add: Rollback_def state_defs)
  show ?thesis
    using r first unfolding stay
    by (simp add: Begin_def Commit_def Rollback_def wasRollbacked_def)
qed

text \<open>The witness: the database rollback fails, then \<open>Begin\<close> and \<open>Commit 5\<close> are tried
  before the calls that are checked.\<close>

theorem Rollback_is_terminal_witness:
  "Active \<lparr>dbHolder = None, tx = Some \<lparr>handle = 1, Error = None\<rparr>,
           transactionUUID = Some 5, rollbacked = False\<rparr>
   \<and> Rollback \<lparr>uuid_NewRandom = (6, None), gorm_Begin = (\<lambda>h. h), gorm_Commit = (\<lambda>h. h),
               gorm_Rollback = (\<lambda>h. h\<lparr>Error := Some (LibraryError ''rollback failed'')\<rparr>)\<rparr>
        \<lparr>dbHolder = None, tx = Some \<lparr>handle = 1, Error = None\<rparr>,
         transactionUUID = Some 5, rollbacked = False\<rparr>
     = (Return (Some (LibraryError ''rollback failed'')),
        \<lparr>dbHolder = None, tx = None, transactionUUID = None, rollbacked = True\<rparr>,
        [DbRollback \<lparr>handle = 1, Error = None\<rparr>])
   \<and> fst (Commit \<lparr>uuid_NewRandom = (6, None), gorm_Begin = (\<lambda>h. h), gorm_Commit = (\<lambda>h. h),
                   gorm_Rollback = (\<lambda>h. h)\<rparr>
            (run [(\<lparr>uuid_NewRandom = (6, None), gorm_Begin = (\<lambda>h. h), gorm_Commit = (\<lambda>h. h),
                    gorm_Rollback = (\<lambda>h. h)\<rparr>, CallBegin),
                  (\<lparr>uuid_NewRandom = (6, None), gorm_Begin = (\<lambda>h. h), gorm_Commit = (\<lambda>h. h),
                    gorm_Rollback = (\<lambda>h. h)\<rparr>, CallCommit 5)]
               (disposeAfterRollback
                  \<lparr>dbHolder = None, tx = Some \<lparr>handle = 1, Error = None\<rparr>,
                   transactionUUID = Some 5, rollbacked = False\<rparr>)) 5)
     = Return (Some ErrTxWasRollbacked)"
proof -
  let ?c = "\<lparr>dbHolder = None, tx = Some \<lparr>handle = 1, Error = None\<rparr>,
             transactionUUID = Some (5::UUID), rollbacked = False\<rparr>"
  let ?t = "\<lparr>handle = 1, Error = None\<rparr>"
  let ?bad = "\<lparr>uuid_NewRandom = (6, None), gorm_Begin = (\<lambda>h. h), gorm_Commit = (\<lambda>h. h),
               gorm_Rollback = (\<lambda>h. h\<lparr>Error := Some (LibraryError ''rollback failed'')\<rparr>)\<rparr>"
  let ?lib = "\<lparr>uuid_NewRandom = (6, None), gorm_Begin = (\<lambda>h. h), gorm_Commit = (\<lambda>h. h),
               gorm_Rollback = (\<lambda>h. h)\<rparr>"
  have a: "Active ?c" by (simp add: Active_def)
  have t: "tx ?c = Some ?t" by simp
  show ?thesis
    using a Rollback_is_terminal
      [OF a t, of ?bad "[(?lib, CallBegin), (?lib, CallCommit 5)]" ?lib 5]
    by (simp add: disposeAfterRollback_def dispose_def)
qed

subsection \<open>Commit\<close>

lemma Commit_Idle:
  "Idle c \<Longrightarrow> Commit lib c uid = (Return (Some ErrNotInTransaction), c, [])"
  by (simp add: Commit_def state_defs)

lemma Idle_dispose: "\<not> rollbacked c \<Longrightarrow> Idle (dispose c)"
  by (simp add: Idle_def dispose_def)

lemma Idle_new: "Idle (newTransactionContext holder)"
  by (simp add: Idle_def newTransactionContext_def)

lemma Commit_owner:
  assumes "Active c" and "transactionUUID c = Some owner" and "tx c = Some t"
  shows "Commit lib c owner = (Return (Error (gorm_Commit lib t)), dispose c, [DbCommit t])"
  using assms by (simp add: Commit_def state_defs)

text \<open>
  C3. On an Active context, \<open>Commit\<close> with a token other than the stored owning token
  returns nil, issues no call against the database, and leaves the context as it was
  (so still Active, with the same handle and the same owning token).
\<close>

theorem Commit_non_owner_noop:
  assumes "Active c" and "transactionUUID c = Some owner" and "uid \<noteq> owner"
  shows "Commit lib c uid = (Return None, c, [])"
  using assms by (simp add: Commit_def Active_def wasRollbacked_def inTransaction_def)

theorem Commit_non_owner_noop_witness:
  "Active \<lparr>dbHolder = None, tx = Some \<lparr>handle = 1, Error = None\<rparr>,
           transactionUUID = Some 5, rollbacked = False\<rparr>
   \<and> Commit \<lparr>uuid_NewRandom = (0, None), gorm_Begin = (\<lambda>h. h),
             gorm_Commit = (\<lambda>h. h), gorm_Rollback = (\<lambda>h. h)\<rparr>
        \<lparr>dbHolder = None, tx = Some \<lparr>handle = 1, Error = None\<rparr>,
         transactionUUID = Some 5, rollbacked = False\<rparr> 6
     = (Return None,
        \<lparr>dbHolder = None, tx = Some \<lparr>handle = 1, Error = None\<rparr>,
         transactionUUID = Some 5, rollbacked = False\<rparr>, [])"
proof -
  let ?c = "\<lparr>dbHolder = None, tx = Some \<lparr>handle = 1, Error = None\<rparr>,
             transactionUUID = Some (5::UUID), rollbacked = False\<rparr>"
  have a: "Active ?c" by (simp add: Active_def)
  have u: "transactionUUID ?c = Some 5" by simp
  have n: "(6::UUID) \<noteq> 5" by simp
  show ?thesis using a Commit_non_owner_noop [OF a u n] by simp
qed

text \<open>
  C4. On an Active context, \<open>Commit\<close> with the owning token issues the database commit
  and, that commit reporting no error, returns nil and leaves the context Idle, handle
  and token cleared. A \<open>Commit\<close> on the context it left, with any token, fails with
  \<open>ErrNotInTransaction\<close> and changes nothing (so does every one after it); so does a
  \<open>Commit\<close> on a context fresh from \<open>newTransactionContext\<close>.
\<close>

theorem Commit_owner_then_NotInTransaction:
  assumes "Active c" and "transactionUUID c = Some owner" and "tx c = Some t"
    and "Error (gorm_Commit lib t) = None"
  shows "Commit lib c owner = (Return None, dispose c, [DbCommit t])
         \<and> Idle (dispose c)
         \<and> tx (dispose c) = None \<and> transactionUUID (dispose c) = None
         \<and> Commit lib' (dispose c) uid = (Return (Some ErrNotInTransaction), dispose c, [])
         \<and> Commit lib' (newTransactionContext holder) uid
             = (Return (Some ErrNotInTransaction), newTransactionContext holder, [])"
proof -
  have nr: "\<not> rollbacked c" using assms(1) by (simp add: Active_def)
  have i: "Idle (dispose c)" using nr by (rule Idle_dispose)
  have "Commit lib c owner = (Return None, dispose c, [DbCommit t])"
    using Commit_owner [OF assms(1-3), of lib] assms(4) by simp
  moreover have "tx (dispose c) = None \<and> transactionUUID (dispose c) = None"
    by (simp add: dispose_def)
  moreover have "Commit lib' (dispose c) uid
                   = (Return (Some ErrNotInTransaction), dispose c, [])"
    using i by (rule Commit_Idle)
  moreover have "Commit lib' (newTransactionContext holder) uid
             = (Return (Some ErrNotInTransaction), newTransactionContext holder, [])"
    using Idle_new by (rule Commit_Idle)
  ultimately show ?thesis using i by simp
qed

theorem Commit_owner_then_NotInTransaction_witness:
  "Active \<lparr>dbHolder = None, tx = Some \<lparr>handle = 1, Error = None\<rparr>,
           transactionUUID = Some 5, rollbacked = False\<rparr>
   \<and> Commit \<lparr>uuid_NewRandom = (6, None), gorm_Begin = (\<lambda>h. h),
             gorm_Commit = (\<lambda>h. h), gorm_Rollback = (\<lambda>h. h)\<rparr>
        \<lparr>dbHolder = None, tx = Some \<lparr>handle = 1, Error = None\<rparr>,
         transactionUUID = Some 5, rollbacked = False\<rparr> 5
     = (Return None,
        \<lparr>dbHolder = None, tx = None, transactionUUID = None, rollbacked = False\<rparr>,
        [DbCommit \<lparr>handle = 1, Error = None\<rparr>])
   \<and> Commit \<lparr>uuid_NewRandom = (6, None), gorm_Begin = (\<lambda>h. h),
             gorm_Commit = (\<lambda>h. h), gorm_Rollback = (\<lambda>h. h)\<rparr>
        \<lparr>dbHolder = None, tx = None, transactionUUID = None, rollbacked = False\<rparr> 5
     = (Return (Some ErrNotInTransaction),
        \<lparr>dbHolder = None, tx = None, transactionUUID = None, rollbacked = False\<rparr>, [])
   \<and> Commit \<lparr>uuid_NewRandom = (6, None), gorm_Begin = (\<lambda>h. h),
             gorm_Commit = (\<lambda>h. h), gorm_Rollback = (\<lambda>h. h)\<rparr>
        (newTransactionContext None) 5
     = (Return (Some ErrNotInTransaction), newTransactionContext None, [])"
proof -
  let ?c = "\<lparr>dbHolder = None, tx = Some \<lparr>handle = 1, Error = None\<rparr>,
             transactionUUID = Some (5::UUID), rollbacked = False\<rparr>"
  let ?t = "\<lparr>handle = 1, Error = None\<rparr>"
  let ?lib = "\<lparr>uuid_NewRandom = (6, None), gorm_Begin = (\<lambda>h. h), gorm_Commit = (\<lambda>h. h),
               gorm_Rollback = (\<lambda>h. h)\<rparr>"
  have a: "Active ?c" by (simp add: Active_def)
  have u: "transactionUUID ?c = Some 5" by simp
  have t: "tx ?c = Some ?t" by simp
  have e: "Error (gorm_Commit ?lib ?t) = None" by simp
  show ?thesis
    using a Commit_owner_then_NotInTransaction [OF a u t e, of ?lib 5 None]
    by (simp add: dispose_def)
qed

text \<open>
  C6. On an Active context, \<open>Commit\<close> with the owning token whose database commit
  reports the error \<open>e\<close> returns that very error, and the handle and the token are
  cleared all the same: the context is Idle afterwards.
\<close>

theorem Commit_failure_still_disposes:
  assumes "Active c" and "transactionUUID c = Some owner" and "tx c = Some t"
    and "Error (gorm_Commit lib t) = Some e"
  shows "Commit lib c owner = (Return (Some e), dispose c, [DbCommit t])
         \<and> tx (dispose c) = None \<and> transactionUUID (dispose c) = None
         \<and> Idle (dispose c)"
proof -
  have nr: "\<not> rollbacked c" using assms(1) by (simp add: Active_def)
  have "Commit lib c owner = (Return (Some e), dispose c, [DbCommit t])"
    using Commit_owner [OF assms(1-3), of lib] assms(4) by simp
  moreover have "tx (dispose c) = None \<and> transactionUUID (dispose c) = None"
    by (simp add: dispose_def)
  ultimately show ?thesis using Idle_dispose [OF nr] by simp
qed

theorem Commit_failure_still_disposes_witness:
  "Active \<lparr>dbHolder = None, tx = Some \<lparr>handle = 1, Error = None\<rparr>,
           transactionUUID = Some 5, rollbacked = False\<rparr>
   \<and> Commit \<lparr>uuid_NewRandom = (6, None), gorm_Begin = (\<lambda>h. h),
             gorm_Commit = (\<lambda>h. h\<lparr>Error := Some (LibraryError ''commit failed'')\<rparr>),
             gorm_Rollback = (\<lambda>h. h)\<rparr>
        \<lparr>dbHolder = None, tx = Some \<lparr>handle = 1, Error = None\<rparr>,
         transactionUUID = Some 5, rollbacked = False\<rparr> 5
     = (Return (Some (LibraryError ''commit failed'')),
        \<lparr>dbHolder = None, tx = None, transactionUUID = None, rollbacked = False\<rparr>,
        [DbCommit \<lparr>handle = 1, Error = None\<rparr>])
   \<and> Idle \<lparr>dbHolder = None, tx = None, transactionUUID = None, rollbacked = False\<rparr>"
proof -
  let ?c = "\<lparr>dbHolder = None, tx = Some \<lparr>handle = 1, Error = None\<rparr>,
             transactionUUID = Some (5::UUID), rollbacked = False\<rparr>"
  let ?t = "\<lparr>handle = 1, Error = None\<rparr>"
  let ?lib = "\<lparr>uuid_NewRandom = (6, None), gorm_Begin = (\<lambda>h. h),
               gorm_Commit = (\<lambda>h. h\<lparr>Error := Some (LibraryError ''commit failed'')\<rparr>),
               gorm_Rollback = (\<lambda>h. h)\<rparr>"
  have a: "Active ?c" by (simp add: Active_def)
  have u: "transactionUUID ?c = Some 5" by simp
  have t: "tx ?c = Some ?t" by simp
  have e: "Error (gorm_Commit ?lib ?t) = Some (LibraryError ''commit failed'')" by simp
  show ?thesis
    using a Commit_failure_still_disposes [OF a u t e]
    by (simp add: dispose_def)
qed

subsection \<open>A failed Begin\<close>

text \<open>
  C7. \<open>Begin\<close> on an Idle context (over a holder with a connection) whose database
  begin reports an error returns the new token together with that error, and keeps
  both the new token and the handle gorm returned: \<open>inTransaction\<close> holds afterwards,
  the context is Active and not Idle.
\<close>

theorem Begin_failure_leaves_Active:
  assumes "Idle c" and "dbHolder c = Some holder" and "dbConnection holder = Some conn"
    and "uuid_NewRandom lib = (uid, None)"
    and "Error (gorm_Begin lib conn) = Some e"
  shows "Begin lib c =
           (Return (uid, Some e),
            c\<lparr>transactionUUID := Some uid, tx := Some (gorm_Begin lib conn)\<rparr>,
            [DbBegin conn])
         \<and> inTransaction (fst (snd (Begin lib c)))
         \<and> Active (fst (snd (Begin lib c)))
         \<and> \<not> Idle (fst (snd (Begin lib c)))"
  using assms by (simp add: Begin_def state_defs Let_def)

theorem Begin_failure_leaves_Active_witness:
  "Idle \<lparr>dbHolder = Some \<lparr>dbConnection = Some \<lparr>handle = 0, Error = None\<rparr>\<rparr>,
         tx = None, transactionUUID = None, rollbacked = False\<rparr>
   \<and> Begin \<lparr>uuid_NewRandom = (6, None),
            gorm_Begin = (\<lambda>h. \<lparr>handle = 1, Error = Some (LibraryError ''begin failed'')\<rparr>),
            gorm_Commit = (\<lambda>h. h), gorm_Rollback = (\<lambda>h. h)\<rparr>
        \<lparr>dbHolder = Some \<lparr>dbConnection = Some \<lparr>handle = 0, Error = None\<rparr>\<rparr>,
         tx = None, transactionUUID = None, rollbacked = False\<rparr>
     = (Return (6, Some (LibraryError ''begin failed'')),
        \<lparr>dbHolder = Some \<lparr>dbConnection = Some \<lparr>handle = 0, Error = None\<rparr>\<rparr>,
         tx = Some \<lparr>handle = 1, Error = Some (LibraryError ''begin failed'')\<rparr>,
         transactionUUID = Some 6, rollbacked = False\<rparr>,
        [DbBegin \<lparr>handle = 0, Error = None\<rparr>])
   \<and> inTransaction
        \<lparr>dbHolder = Some \<lparr>dbConnection = Some \<lparr>handle = 0, Error = None\<rparr>\<rparr>,
         tx = Some \<lparr>handle = 1, Error = Some (LibraryError ''begin failed'')\<rparr>,
         transactionUUID = Some 6, rollbacked = False\<rparr>"
proof -
  let ?conn = "\<lparr>handle = 0, Error = None\<rparr>"
  let ?holder = "\<lparr>dbConnection = Some ?conn\<rparr>"
  let ?c = "\<lparr>dbHolder = Some ?holder, tx = None, transactionUUID = None :: UUID option,
             rollbacked = False\<rparr>"
  let ?lib = "\<lparr>uuid_NewRandom = (6, None),
               gorm_Begin = (\<lambda>h. \<lparr>handle = 1, Error = Some (LibraryError ''begin failed'')\<rparr>),
               gorm_Commit = (\<lambda>h. h), gorm_Rollback = (\<lambda>h. h)\<rparr>"
  have i: "Idle ?c" by (simp add: Idle_def)
  have h: "dbHolder ?c = Some ?holder" by simp
  have k: "dbConnection ?holder = Some ?conn" by simp
  have n: "uuid_NewRandom ?lib = (6, None)" by simp
  have e: "Error (gorm_Begin ?lib ?conn) = Some (LibraryError ''begin failed'')" by simp
  show ?thesis
    using i Begin_failure_leaves_Active [OF i h k n e]
    by (simp add: inTransaction_def)
qed

subsection \<open>Provider\<close>

text \<open>
  C8. \<open>Provider\<close> returns the transactional handle of an Active context, the
  connection of the holder for an Idle context, and nil for a RolledBack one.
\<close>

theorem Provider_by_state:
  "(Active c1 \<longrightarrow> Provider c1 = Return (tx c1) \<and> tx c1 \<noteq> None)
   \<and> (Idle c2 \<and> dbHolder c2 = Some holder \<longrightarrow> Provider c2 = Return (dbConnection holder))
   \<and> (RolledBack c3 \<longrightarrow> Provider c3 = Return None)"
  by (simp add: Provider_def providerWithoutTransaction_def state_defs)

theorem Provider_by_state_witness:
  "Active \<lparr>dbHolder = Some \<lparr>dbConnection = Some \<lparr>handle = 0, Error = None\<rparr>\<rparr>,
           tx = Some \<lparr>handle = 1, Error = None\<rparr>, transactionUUID = Some 5,
           rollbacked = False\<rparr>
   \<and> Provider \<lparr>dbHolder = Some \<lparr>dbConnection = Some \<lparr>handle = 0, Error = None\<rparr>\<rparr>,
           tx = Some \<lparr>handle = 1, Error = None\<rparr>, transactionUUID = Some 5,
           rollbacked = False\<rparr>
       = Return (Some \<lparr>handle = 1, Error = None\<rparr>)
   \<and> Idle \<lparr>dbHolder = Some \<lparr>dbConnection = Some \<lparr>handle = 0, Error = None\<rparr>\<rparr>,
           tx = None, transactionUUID = None, rollbacked = False\<rparr>
   \<and> Provider \<lparr>dbHolder = Some \<lparr>dbConnection = Some \<lparr>handle = 0, Error = None\<rparr>\<rparr>,
           tx = None, transactionUUID = None, rollbacked = False\<rparr>
       = Return (Some \<lparr>handle = 0, Error = None\<rparr>)
   \<and> RolledBack \<lparr>dbHolder = Some \<lparr>dbConnection = Some \<lparr>handle = 0, Error = None\<rparr>\<rparr>,
           tx = None, transactionUUID = None, rollbacked = True\<rparr>
   \<and> Provider \<lparr>dbHolder = Some \<lparr>dbConnection = Some \<lparr>handle = 0, Error = None\<rparr>\<rparr>,
           tx = None, transactionUUID = None, rollbacked = True\<rparr>
       = Return None"
proof -
  let ?holder = "\<lparr>dbConnection = Some \<lparr>handle = 0, Error = None\<rparr>\<rparr>"
  let ?c1 = "\<lparr>dbHolder = Some ?holder, tx = Some \<lparr>handle = 1, Error = None\<rparr>,
              transactionUUID = Some (5::UUID), rollbacked = False\<rparr>"
  let ?c2 = "\<lparr>dbHolder = Some ?holder, tx = None, transactionUUID = None :: UUID option,
              rollbacked = False\<rparr>"
  let ?c3 = "\<lparr>dbHolder = Some ?holder, tx = None, transactionUUID = None :: UUID option,
              rollbacked = True\<rparr>"
  have a: "Active ?c1" by (simp add: Active_def)
  have i: "Idle ?c2 \<and> dbHolder ?c2 = Some ?holder" by (simp add: Idle_def)
  have r: "RolledBack ?c3" by (simp add: RolledBack_def)
  show ?thesis
    using a i r Provider_by_state [of ?c1 ?c2 ?holder ?c3] by simp
qed

subsection \<open>Rollback with nothing to roll back\<close>

text \<open>
  C9. \<open>Rollback\<close> on an Idle context, be it fresh or committed back to Idle, returns
  nil, issues no call against the database, and leaves the context as it was.
\<close>

theorem Rollback_Idle_noop:
  assumes "Idle c"
  shows "Rollback lib c = (Return None, c, [])"
  using assms by (simp add: Rollback_def state_defs)

theorem Rollback_Idle_noop_witness:
  "Idle (newTransactionContext (Some \<lparr>dbConnection = Some \<lparr>handle = 0, Error = None\<rparr>\<rparr>))
   \<and> Rollback \<lparr>uuid_NewRandom = (6, None), gorm_Begin = (\<lambda>h. h),
               gorm_Commit = (\<lambda>h. h), gorm_Rollback = (\<lambda>h. h)\<rparr>
        (newTransactionContext (Some \<lparr>dbConnection = Some \<lparr>handle = 0, Error = None\<rparr>\<rparr>))
     = (Return None,
        \<lparr>dbHolder = Some \<lparr>dbConnection = Some \<lparr>handle = 0, Error = None\<rparr>\<rparr>,
         tx = None, transactionUUID = None, rollbacked = False\<rparr>, [])"
proof -
  let ?c = "newTransactionContext (Some \<lparr>dbConnection = Some \<lparr>handle = 0, Error = None\<rparr>\<rparr>)"
  have i: "Idle ?c" by (rule Idle_new)
  show ?thesis
    using i Rollback_Idle_noop [OF i] by (simp add: newTransactionContext_def)
qed

subsection \<open>Handle and token go together\<close>

lemma invariant_A_new: "invariant_A (newTransactionContext holder)"
  by (simp add: invariant_A_def newTransactionContext_def)

lemma invariant_A_after_call:
  "invariant_A c \<Longrightarrow> call_returns lib k c \<Longrightarrow> invariant_A (after_call lib k c)"
  by (cases k)
     (auto simp: invariant_A_def Begin_def Commit_def Rollback_def dispose_def
        disposeAfterRollback_def Let_def split: if_splits option.splits prod.splits)

lemma invariant_A_run:
  "invariant_A c \<Longrightarrow> all_return ks c \<Longrightarrow> invariant_A (run ks c)"
proof (induction ks arbitrary: c)
  case Nil
  then show ?case by simp
next
  case (Cons a ks)
  obtain lib k where a: "a = (lib, k)" by (cases a)
  from Cons.prems
  have "invariant_A (after_call lib k c)" and "all_return ks (after_call lib k c)"
    by (simp_all add: a invariant_A_after_call)
  then have "invariant_A (run ks (after_call lib k c))" by (rule Cons.IH)
  then show ?case by (simp add: a)
qed

lemma connected_after_call: "connected c \<Longrightarrow> connected (after_call lib k c)"
  by (cases k)
     (auto simp: connected_def Begin_def Commit_def Rollback_def dispose_def
        disposeAfterRollback_def Let_def split: if_splits option.splits prod.splits)

lemma connected_call_returns: "connected c \<Longrightarrow> call_returns lib k c"
  by (cases k)
     (auto simp: connected_def Begin_def Commit_def Rollback_def Provider_def
        providerWithoutTransaction_def inTransaction_def Let_def
        split: if_splits option.splits prod.splits)

lemma connected_all_return: "connected c \<Longrightarrow> all_return ks c"
proof (induction ks arbitrary: c)
  case Nil
  then show ?case by simp
next
  case (Cons a ks)
  obtain lib k where a: "a = (lib, k)" by (cases a)
  from Cons.prems have "connected (after_call lib k c)" by (rule connected_after_call)
  then have "all_return ks (after_call lib k c)" by (rule Cons.IH)
  with Cons.prems show ?case by (simp add: a connected_call_returns)
qed

text \<open>The one place where the token is stored without a handle is a \<open>Begin\<close> that
  panics because the context has no holder (or the holder no connection): the token
  is assigned before \<^verbatim>\<open>c.dbHolder.dbConnection.Begin()\<close> is evaluated.\<close>

lemma Begin_without_holder_panics:
  assumes "Idle c" and "dbHolder c = None" and "uuid_NewRandom lib = (uid, None)"
  shows "Begin lib c = (Panic, c\<lparr>transactionUUID := Some uid\<rparr>, [])"
  using assms by (simp add: Begin_def state_defs)

text \<open>
  The claim C5 as the specification words it, refuted. With a nil configuration the
  first \<open>NewDBHolderInstance\<close> panics and the next one returns the nil holder; on the
  context made over it, where invariant A holds, \<open>Begin\<close> stores the token 6 and
  panics before a handle exists. \<open>Commit\<close> and \<open>Rollback\<close> on the context left behind
  return to their caller with the token still stored and no handle.
\<close>

theorem invariant_A_every_context_counterexample:
  "NewDBHolderInstance (\<lambda>n d. (None, Some (LibraryError ''refused''))) None initial_vars
     = (Panic, \<lparr>dbHolder_var = None, onceDBHolder = True\<rparr>, [])
   \<and> NewDBHolderInstance (\<lambda>n d. (None, Some (LibraryError ''refused''))) None
        \<lparr>dbHolder_var = None, onceDBHolder = True\<rparr>
     = (Return None, \<lparr>dbHolder_var = None, onceDBHolder = True\<rparr>, [])
   \<and> invariant_A (newTransactionContext None)
   \<and> Begin \<lparr>uuid_NewRandom = (6, None), gorm_Begin = (\<lambda>h. h),
            gorm_Commit = (\<lambda>h. h), gorm_Rollback = (\<lambda>h. h)\<rparr>
        (newTransactionContext None)
     = (Panic,
        \<lparr>dbHolder = None, tx = None, transactionUUID = Some 6, rollbacked = False\<rparr>, [])
   \<and> Commit \<lparr>uuid_NewRandom = (6, None), gorm_Begin = (\<lambda>h. h),
             gorm_Commit = (\<lambda>h. h), gorm_Rollback = (\<lambda>h. h)\<rparr>
        \<lparr>dbHolder = None, tx = None, transactionUUID = Some 6, rollbacked = False\<rparr> 6
     = (Return (Some ErrNotInTransaction),
        \<lparr>dbHolder = None, tx = None, transactionUUID = Some 6, rollbacked = False\<rparr>, [])
   \<and> Rollback \<lparr>uuid_NewRandom = (6, None), gorm_Begin = (\<lambda>h. h),
               gorm_Commit = (\<lambda>h. h), gorm_Rollback = (\<lambda>h. h)\<rparr>
        \<lparr>dbHolder = None, tx = None, transactionUUID = Some 6, rollbacked = False\<rparr>
     = (Return None,
        \<lparr>dbHolder = None, tx = None, transactionUUID = Some 6, rollbacked = False\<rparr>, [])
   \<and> \<not> invariant_A
         \<lparr>dbHolder = None, tx = None, transactionUUID = Some 6, rollbacked = False\<rparr>"
  by (simp add: NewDBHolderInstance_def NewConnect_def Open_def initial_vars_def
      newTransactionContext_def invariant_A_def Begin_def Commit_def Rollback_def
      wasRollbacked_def inTransaction_def)

text \<open>
  C5, amended. Invariant A holds of a fresh context, and every call of \<open>Begin\<close>,
  \<open>Commit\<close>, \<open>Rollback\<close> or \<open>Provider\<close> that returns to its caller preserves it,
  whatever state it starts from and whatever the libraries answer; hence it holds
  after every sequence of such calls. On a context over a holder that carries a
  connection every call returns, so there the invariant, once it holds, holds after
  every sequence of calls.
\<close>

theorem handle_and_token_paired:
  "invariant_A (newTransactionContext holder)
   \<and> (invariant_A c \<and> call_returns lib k c \<longrightarrow> invariant_A (after_call lib k c))
   \<and> (invariant_A c \<and> all_return ks c \<longrightarrow> invariant_A (run ks c))
   \<and> (connected c \<and> invariant_A c \<longrightarrow> all_return ks c \<and> invariant_A (run ks c))"
  using invariant_A_new invariant_A_after_call invariant_A_run connected_all_return
  by blast

theorem handle_and_token_paired_witness:
  "invariant_A (newTransactionContext (Some \<lparr>dbConnection = Some \<lparr>handle = 0, Error = None\<rparr>\<rparr>))
   \<and> connected (newTransactionContext (Some \<lparr>dbConnection = Some \<lparr>handle = 0, Error = None\<rparr>\<rparr>))
   \<and> call_returns
        \<lparr>uuid_NewRandom = (6, None), gorm_Begin = (\<lambda>h. h\<lparr>handle := 1\<rparr>),
         gorm_Commit = (\<lambda>h. h), gorm_Rollback = (\<lambda>h. h)\<rparr> CallBegin
        (newTransactionContext (Some \<lparr>dbConnection = Some \<lparr>handle = 0, Error = None\<rparr>\<rparr>))
   \<and> invariant_A (after_call
        \<lparr>uuid_NewRandom = (6, None), gorm_Begin = (\<lambda>h. h\<lparr>handle := 1\<rparr>),
         gorm_Commit = (\<lambda>h. h), gorm_Rollback = (\<lambda>h. h)\<rparr> CallBegin
        (newTransactionContext (Some \<lparr>dbConnection = Some \<lparr>handle = 0, Error = None\<rparr>\<rparr>)))
   \<and> all_return
        [(\<lparr>uuid_NewRandom = (6, None), gorm_Begin = (\<lambda>h. h\<lparr>handle := 1\<rparr>),
           gorm_Commit = (\<lambda>h. h), gorm_Rollback = (\<lambda>h. h)\<rparr>, CallBegin),
         (\<lparr>uuid_NewRandom = (7, None), gorm_Begin = (\<lambda>h. h\<lparr>handle := 2\<rparr>),
           gorm_Commit = (\<lambda>h. h), gorm_Rollback = (\<lambda>h. h)\<rparr>, CallBegin),
         (\<lparr>uuid_NewRandom = (8, None), gorm_Begin = (\<lambda>h. h\<lparr>handle := 3\<rparr>),
           gorm_Commit = (\<lambda>h. h), gorm_Rollback = (\<lambda>h. h)\<rparr>, CallCommit 7),
         (\<lparr>uuid_NewRandom = (8, None), gorm_Begin = (\<lambda>h. h\<lparr>handle := 3\<rparr>),
           gorm_Commit = (\<lambda>h. h), gorm_Rollback = (\<lambda>h. h)\<rparr>, CallProvider),
         (\<lparr>uuid_NewRandom = (8, None), gorm_Begin = (\<lambda>h. h\<lparr>handle := 3\<rparr>),
           gorm_Commit = (\<lambda>h. h), gorm_Rollback = (\<lambda>h. h)\<rparr>, CallRollback)]
        (newTransactionContext (Some \<lparr>dbConnection = Some \<lparr>handle = 0, Error = None\<rparr>\<rparr>))
   \<and> invariant_A (run
        [(\<lparr>uuid_NewRandom = (6, None), gorm_Begin = (\<lambda>h. h\<lparr>handle := 1\<rparr>),
           gorm_Commit = (\<lambda>h. h), gorm_Rollback = (\<lambda>h. h)\<rparr>, CallBegin),
         (\<lparr>uuid_NewRandom = (7, None), gorm_Begin = (\<lambda>h. h\<lparr>handle := 2\<rparr>),
           gorm_Commit = (\<lambda>h. h), gorm_Rollback = (\<lambda>h. h)\<rparr>, CallBegin),
         (\<lparr>uuid_NewRandom = (8, None), gorm_Begin = (\<lambda>h. h\<lparr>handle := 3\<rparr>),
           gorm_Commit = (\<lambda>h. h), gorm_Rollback = (\<lambda>h. h)\<rparr>, CallCommit 7),
         (\<lparr>uuid_NewRandom = (8, None), gorm_Begin = (\<lambda>h. h\<lparr>handle := 3\<rparr>),
           gorm_Commit = (\<lambda>h. h), gorm_Rollback = (\<lambda>h. h)\<rparr>, CallProvider),
         (\<lparr>uuid_NewRandom = (8, None), gorm_Begin = (\<lambda>h. h\<lparr>handle := 3\<rparr>),
           gorm_Commit = (\<lambda>h. h), gorm_Rollback = (\<lambda>h. h)\<rparr>, CallRollback)]
        (newTransactionContext (Some \<lparr>dbConnection = Some \<lparr>handle = 0, Error = None\<rparr>\<rparr>)))"
proof -
  let ?c = "newTransactionContext (Some \<lparr>dbConnection = Some \<lparr>handle = 0, Error = None\<rparr>\<rparr>)"
  let ?lib = "\<lparr>uuid_NewRandom = (6, None), gorm_Begin = (\<lambda>h. h\<lparr>handle := 1\<rparr>),
         gorm_Commit = (\<lambda>h. h), gorm_Rollback = (\<lambda>h. h)\<rparr>"
  let ?ks = "[(?lib, CallBegin),
         (\<lparr>uuid_NewRandom = (7, None), gorm_Begin = (\<lambda>h. h\<lparr>handle := 2\<rparr>),
           gorm_Commit = (\<lambda>h. h), gorm_Rollback = (\<lambda>h. h)\<rparr>, CallBegin),
         (\<lparr>uuid_NewRandom = (8, None), gorm_Begin = (\<lambda>h. h\<lparr>handle := 3\<rparr>),
           gorm_Commit = (\<lambda>h. h), gorm_Rollback = (\<lambda>h. h)\<rparr>, CallCommit 7),
         (\<lparr>uuid_NewRandom = (8, None), gorm_Begin = (\<lambda>h. h\<lparr>handle := 3\<rparr>),
           gorm_Commit = (\<lambda>h. h), gorm_Rollback = (\<lambda>h. h)\<rparr>, CallProvider),
         (\<lparr>uuid_NewRandom = (8, None), gorm_Begin = (\<lambda>h. h\<lparr>handle := 3\<rparr>),
           gorm_Commit = (\<lambda>h. h), gorm_Rollback = (\<lambda>h. h)\<rparr>, CallRollback)]"
  have k: "connected ?c" by (simp add: connected_def newTransactionContext_def)
  have r: "call_returns ?lib CallBegin ?c"
    by (simp add: newTransactionContext_def Begin_def state_defs)
  show ?thesis
    using k r handle_and_token_paired [of "Some \<lparr>dbConnection = Some \<lparr>handle = 0, Error = None\<rparr>\<rparr>" ?c ?lib CallBegin ?ks]
    by simp
qed

section \<open>Properties of the holder singleton\<close>

text \<open>When \<^verbatim>\<open>Open\<close> returns, its last attempt succeeded and is the only one that
  did; every attempt was made with the host, user, password, database name and schema
  of the configuration \<^verbatim>\<open>Open\<close> was given.\<close>

lemma opened_failed: "err \<noteq> None \<Longrightarrow> opened ((db, err) # answers) = opened answers"
  by (cases db; cases err) simp_all

lemma Open_loop_Return:
  "Open_loop dial cfg retry = (Return (db, err), answers) \<Longrightarrow>
     err = None \<and>
     (\<exists>conn k. db = Some conn \<and> retry \<le> k \<and> k < defaultConnectionNumberOfRetries
        \<and> dial k (Host cfg, User cfg, Password cfg, DBName cfg, Schema cfg) = (Some conn, None)
        \<and> answers = map (\<lambda>i. dial i (Host cfg, User cfg, Password cfg, DBName cfg, Schema cfg))
                        [retry..<Suc k]
        \<and> opened answers = [conn])"
proof (induction dial cfg retry arbitrary: answers rule: Open_loop.induct)
  case (1 dial cfg retry)
  let ?d = "(Host cfg, User cfg, Password cfg, DBName cfg, Schema cfg)"
  have fields: "dsn_fields cfg = ?d" by (simp add: dsn_fields_def)
  show ?case
  proof (cases "retry < defaultConnectionNumberOfRetries")
    case False
    with "1.prems" show ?thesis by (simp add: Open_loop.simps [of dial cfg retry])
  next
    case True
    obtain db0 err0 where d: "dial retry (dsn_fields cfg) = (db0, err0)"
      by (cases "dial retry (dsn_fields cfg)")
    show ?thesis
    proof (cases "err0 = None")
      case ok: True
      from True d ok "1.prems"
      have "db0 \<noteq> None" and eq: "db = db0" "err = None" "answers = [(db0, err0)]"
        by (auto simp: Open_loop.simps [of dial cfg retry] split: if_splits)
      then obtain conn where c: "db0 = Some conn" by auto
      have "dial retry ?d = (Some conn, None)" using d c ok fields by simp
      moreover have "answers = map (\<lambda>i. dial i ?d) [retry..<Suc retry]"
        using eq(3) d fields by simp
      moreover have "opened answers = [conn]" using eq(3) c ok by simp
      ultimately show ?thesis using True eq(1,2) c by auto
    next
      case False
      obtain r rest where rec: "Open_loop dial cfg (retry + 1) = (r, rest)"
        by (cases "Open_loop dial cfg (retry + 1)")
      from False True d rec "1.prems"
      have eq: "r = Return (db, err)" "answers = (db0, err0) # rest"
        by (auto simp: Open_loop.simps [of dial cfg retry])
      from "1.IH" [OF True d [symmetric] False, of rest] rec eq(1)
      obtain conn k where e: "err = None" and c: "db = Some conn"
        and k: "retry + 1 \<le> k" "k < defaultConnectionNumberOfRetries"
        and dk: "dial k ?d = (Some conn, None)"
        and r: "rest = map (\<lambda>i. dial i ?d) [retry + 1..<Suc k]"
        and o: "opened rest = [conn]" by auto
      have "[retry..<Suc k] = retry # [retry + 1..<Suc k]"
        using k(1) by (simp add: upt_conv_Cons)
      then have "answers = map (\<lambda>i. dial i ?d) [retry..<Suc k]"
        using eq(2) r d fields by simp
      moreover have "opened answers = [conn]"
        using eq(2) o False by (simp add: opened_failed)
      ultimately show ?thesis using e c k dk by auto
    qed
  qed
qed

lemma NewConnect_Return:
  assumes "NewConnect dial config = (Return db, answers)"
  shows "\<exists>cfg conn k. config = Some cfg \<and> db = Some conn
           \<and> k < defaultConnectionNumberOfRetries
           \<and> dial k (Host cfg, User cfg, Password cfg, DBName cfg, Schema cfg) = (Some conn, None)
           \<and> answers = map (\<lambda>i. dial i (Host cfg, User cfg, Password cfg, DBName cfg, Schema cfg))
                           [0..<Suc k]
           \<and> opened answers = [conn]"
proof (cases config)
  case None
  with assms show ?thesis by (simp add: NewConnect_def Open_def)
next
  case (Some cfg)
  obtain r rest where o: "Open_loop dial cfg 0 = (r, rest)"
    by (cases "Open_loop dial cfg 0")
  show ?thesis
  proof (cases r)
    case (Return res)
    obtain db' err where res: "res = (db', err)" by (cases res)
    from Open_loop_Return [of dial cfg 0 db' err rest] o Return res
    obtain conn k where "err = None" and f: "db' = Some conn"
      "k < defaultConnectionNumberOfRetries"
      "dial k (Host cfg, User cfg, Password cfg, DBName cfg, Schema cfg) = (Some conn, None)"
      "rest = map (\<lambda>i. dial i (Host cfg, User cfg, Password cfg, DBName cfg, Schema cfg))
                [0..<Suc k]"
      "opened rest = [conn]" by auto
    moreover from assms Some o Return res \<open>err = None\<close>
    have "db = db'" and "answers = rest" by (simp_all add: NewConnect_def Open_def)
    ultimately show ?thesis using Some by blast
  next
    case Panic
    with assms Some o show ?thesis by (simp add: NewConnect_def Open_def)
  next
    case Fatal
    with assms Some o show ?thesis by (simp add: NewConnect_def Open_def)
  qed
qed

lemma NewDBHolderInstance_done:
  "onceDBHolder g \<Longrightarrow> NewDBHolderInstance dial config g = (Return (dbHolder_var g), g, [])"
  by (simp add: NewDBHolderInstance_def)

lemma instances_done:
  "onceDBHolder g \<Longrightarrow>
     instances rest g = (replicate (length rest) (Return (dbHolder_var g)), g, [])"
  by (induction rest) (auto simp: NewDBHolderInstance_done)

text \<open>A first call that panics (here on a nil configuration) has used up the
  \<^verbatim>\<open>sync.Once\<close> all the same: a caller that recovers and calls again is handed the nil
  pointer.\<close>

lemma NewDBHolderInstance_nil_config:
  "NewDBHolderInstance dial None initial_vars
     = (Panic, \<lparr>dbHolder_var = None, onceDBHolder = True\<rparr>, [])
   \<and> NewDBHolderInstance dial' config' \<lparr>dbHolder_var = None, onceDBHolder = True\<rparr>
     = (Return None, \<lparr>dbHolder_var = None, onceDBHolder = True\<rparr>, [])"
  by (simp add: NewDBHolderInstance_def NewConnect_def Open_def initial_vars_def)

lemma NewDBHolderInstance_first:
  assumes "NewDBHolderInstance dial config initial_vars = (Return p, g, answers)"
  shows "\<exists>cfg conn k. config = Some cfg \<and> p = Some \<lparr>dbConnection = Some conn\<rparr>
           \<and> k < defaultConnectionNumberOfRetries
           \<and> dial k (Host cfg, User cfg, Password cfg, DBName cfg, Schema cfg) = (Some conn, None)
           \<and> answers = map (\<lambda>i. dial i (Host cfg, User cfg, Password cfg, DBName cfg, Schema cfg))
                           [0..<Suc k]
           \<and> opened answers = [conn]
           \<and> g = \<lparr>dbHolder_var = p, onceDBHolder = True\<rparr>"
proof -
  obtain r rest where n: "NewConnect dial config = (r, rest)"
    by (cases "NewConnect dial config")
  show ?thesis
  proof (cases r)
    case (Return db)
    from NewConnect_Return [of dial config db rest] n Return
    obtain cfg conn k where f: "config = Some cfg" "db = Some conn"
      "k < defaultConnectionNumberOfRetries"
      "dial k (Host cfg, User cfg, Password cfg, DBName cfg, Schema cfg) = (Some conn, None)"
      "rest = map (\<lambda>i. dial i (Host cfg, User cfg, Password cfg, DBName cfg, Schema cfg))
                [0..<Suc k]"
      "opened rest = [conn]" by auto
    from assms n Return f(2)
    have "p = Some \<lparr>dbConnection = Some conn\<rparr>" "answers = rest"
      "g = \<lparr>dbHolder_var = p, onceDBHolder = True\<rparr>"
      by (auto simp: NewDBHolderInstance_def initial_vars_def NewDBHolder_def)
    with f show ?thesis by blast
  next
    case Panic
    with assms n show ?thesis by (simp add: NewDBHolderInstance_def initial_vars_def)
  next
    case Fatal
    with assms n show ?thesis by (simp add: NewDBHolderInstance_def initial_vars_def)
  qed
qed

text \<open>
  C10. Let the first call of \<open>NewDBHolderInstance\<close> in the process, made with
  \<open>config\<close>, return the pointer \<open>p\<close>. Then \<open>config\<close> is not nil and \<open>p\<close> points to a
  holder whose connection is the one \<^verbatim>\<open>gorm.Open\<close> answered, at some attempt \<open>k\<close> below
  the retry bound, for the host, user, password, database name and schema of that
  first configuration; all attempts of the first call were made with those five
  parameters. Every later call returns the same \<open>p\<close>, whatever configuration (nil
  included) it is given and whatever the database would answer for it, leaves the
  package variables alone and makes no attempt to connect; over the first and all
  later calls exactly one connection is opened.
\<close>

theorem NewDBHolderInstance_singleton:
  assumes "NewDBHolderInstance dial config initial_vars = (Return p, g, answers)"
  shows "\<exists>cfg conn k. config = Some cfg
           \<and> k < defaultConnectionNumberOfRetries
           \<and> dial k (Host cfg, User cfg, Password cfg, DBName cfg, Schema cfg) = (Some conn, None)
           \<and> answers = map (\<lambda>i. dial i (Host cfg, User cfg, Password cfg, DBName cfg, Schema cfg))
                           [0..<Suc k]
           \<and> p = Some \<lparr>dbConnection = Some conn\<rparr>
           \<and> instances rest g = (replicate (length rest) (Return p), g, [])
           \<and> opened (answers @ snd (snd (instances rest g))) = [conn]"
proof -
  from NewDBHolderInstance_first [OF assms] obtain cfg conn k where
    f: "config = Some cfg" "k < defaultConnectionNumberOfRetries"
      "dial k (Host cfg, User cfg, Password cfg, DBName cfg, Schema cfg) = (Some conn, None)"
      "answers = map (\<lambda>i. dial i (Host cfg, User cfg, Password cfg, DBName cfg, Schema cfg))
                   [0..<Suc k]"
    and p: "p = Some \<lparr>dbConnection = Some conn\<rparr>" and o: "opened answers = [conn]"
    and g: "g = \<lparr>dbHolder_var = p, onceDBHolder = True\<rparr>" by blast
  have i: "instances rest g = (replicate (length rest) (Return p), g, [])"
    using instances_done [of g rest] g by simp
  have "opened (answers @ snd (snd (instances rest g))) = [conn]"
    using i o by simp
  with f p i show ?thesis by blast
qed

text \<open>The first caller's database answers only for its own parameters, from the third
  attempt on; the later callers come with a nil and with a different configuration,
  for which their database would hand out other connections.\<close>

theorem NewDBHolderInstance_singleton_witness:
  "NewDBHolderInstance
     (\<lambda>n d. if d = (''db'', ''u'', ''p'', ''app'', ''public'') \<and> 2 \<le> n
             then (Some \<lparr>handle = 7, Error = None\<rparr>, None)
             else (None, Some (LibraryError ''refused'')))
     (Some \<lparr>Host = ''db'', DBName = ''app'', Schema = ''public'', User = ''u'',
            Password = ''p'', MaxOpenConnections = 5, ConnectionMaxLifetimeMS = 60000,
            LogMode = True, SSLMode = ''disable''\<rparr>)
     initial_vars
   = (Return (Some \<lparr>dbConnection = Some \<lparr>handle = 7, Error = None\<rparr>\<rparr>),
      \<lparr>dbHolder_var = Some \<lparr>dbConnection = Some \<lparr>handle = 7, Error = None\<rparr>\<rparr>,
       onceDBHolder = True\<rparr>,
      [(None, Some (LibraryError ''refused'')), (None, Some (LibraryError ''refused'')),
       (Some \<lparr>handle = 7, Error = None\<rparr>, None)])
   \<and> instances
       [(\<lambda>n d. if d = (''other'', ''u'', ''p'', ''app'', ''public'')
                then (Some \<lparr>handle = 9, Error = None\<rparr>, None)
                else (Some \<lparr>handle = 8, Error = None\<rparr>, None), None),
        (\<lambda>n d. if d = (''other'', ''u'', ''p'', ''app'', ''public'')
                then (Some \<lparr>handle = 9, Error = None\<rparr>, None)
                else (Some \<lparr>handle = 8, Error = None\<rparr>, None),
         Some \<lparr>Host = ''other'', DBName = ''app'', Schema = ''public'', User = ''u'',
            Password = ''p'', MaxOpenConnections = 5, ConnectionMaxLifetimeMS = 60000,
            LogMode = True, SSLMode = ''disable''\<rparr>)]
       \<lparr>dbHolder_var = Some \<lparr>dbConnection = Some \<lparr>handle = 7, Error = None\<rparr>\<rparr>,
        onceDBHolder = True\<rparr>
   = ([Return (Some \<lparr>dbConnection = Some \<lparr>handle = 7, Error = None\<rparr>\<rparr>),
       Return (Some \<lparr>dbConnection = Some \<lparr>handle = 7, Error = None\<rparr>\<rparr>)],
      \<lparr>dbHolder_var = Some \<lparr>dbConnection = Some \<lparr>handle = 7, Error = None\<rparr>\<rparr>,
       onceDBHolder = True\<rparr>, [])"
proof -
  let ?dial = "\<lambda>(n::nat) (d::dsn).
             if d = (''db'', ''u'', ''p'', ''app'', ''public'') \<and> 2 \<le> n
             then (Some \<lparr>handle = 7, Error = None\<rparr>, None)
             else (None, Some (LibraryError ''refused''))"
  let ?config = "Some \<lparr>Host = ''db'', DBName = ''app'', Schema = ''public'', User = ''u'',
            Password = ''p'', MaxOpenConnections = 5, ConnectionMaxLifetimeMS = 60000,
            LogMode = True, SSLMode = ''disable''\<rparr>"
  let ?p = "Some \<lparr>dbConnection = Some \<lparr>handle = 7, Error = None\<rparr>\<rparr>"
  let ?g = "\<lparr>dbHolder_var = ?p, onceDBHolder = True\<rparr>"
  let ?answers = "[(None, Some (LibraryError ''refused'')), (None, Some (LibraryError ''refused'')),
       (Some \<lparr>handle = 7, Error = None\<rparr>, None)]"
  let ?other = "\<lambda>(n::nat) (d::dsn). if d = (''other'', ''u'', ''p'', ''app'', ''public'')
                then (Some \<lparr>handle = 9, Error = None\<rparr>, None :: error option)
                else (Some \<lparr>handle = 8, Error = None\<rparr>, None)"
  let ?rest = "[(?other, None),
        (?other,
         Some \<lparr>Host = ''other'', DBName = ''app'', Schema = ''public'', User = ''u'',
            Password = ''p'', MaxOpenConnections = 5, ConnectionMaxLifetimeMS = 60000,
            LogMode = True, SSLMode = ''disable''\<rparr>)]"
  have first: "NewDBHolderInstance ?dial ?config initial_vars = (Return ?p, ?g, ?answers)"
    by code_simp
  from NewDBHolderInstance_singleton [OF first, of ?rest]
  have "instances ?rest ?g = (replicate (length ?rest) (Return ?p), ?g, [])"
    by blast
  then show ?thesis using first by simp
qed

end
